theory Spec2Isabelle
  imports Main "HOL-Library.Char_ord" "HOL-Library.List_Lexorder" "HOL-Library.Sublist"
begin

section \<open>The AST node model\<close>

text \<open>
  The node kinds that the test file names: the three whose hook registration is commented
  out (lines 43 to 45) and the twenty-three that \<^verbatim>\<open>EXTRACT_KINDNAME_METHOD\<close> is
  instantiated for (lines 47 to 69).  The enumeration itself (\<^verbatim>\<open>execution/ast/ast.h\<close>)
  is not among the sources.
\<close>

datatype Kind =
    FieldDecl | FunctionTypeRepr | IdentifierExpr
  | FunctionDecl | ArrayTypeRepr | BlockStmt | StructDecl | VariableDecl | UnaryOpExpr
  | ReturnStmt | CallExpr | ImplicitCastExpr | AssignmentStmt | File | FunctionLitExpr
  | ForStmt | ForInStmt | BinaryOpExpr | LitExpr | StructTypeRepr | DeclStmt
  | PointerTypeRepr | ComparisonOpExpr | IfStmt | ExpressionStmt | IndexExpr

text \<open>
  Modelled from the spec: \<^verbatim>\<open>AstNode::KindName()\<close> is declared in
  \<^verbatim>\<open>execution/ast/ast.h\<close>, which is not among the sources.  The spec calls its result
  the kind's canonical name and writes the names as the kinds are spelled
  ("IfStmt", "ComparisonOpExpr", "BlockStmt", "FunctionDecl", ...).
\<close>

fun KindName :: "Kind \<Rightarrow> string" where
  "KindName FieldDecl = ''FieldDecl''"
| "KindName FunctionTypeRepr = ''FunctionTypeRepr''"
| "KindName IdentifierExpr = ''IdentifierExpr''"
| "KindName FunctionDecl = ''FunctionDecl''"
| "KindName ArrayTypeRepr = ''ArrayTypeRepr''"
| "KindName BlockStmt = ''BlockStmt''"
| "KindName StructDecl = ''StructDecl''"
| "KindName VariableDecl = ''VariableDecl''"
| "KindName UnaryOpExpr = ''UnaryOpExpr''"
| "KindName ReturnStmt = ''ReturnStmt''"
| "KindName CallExpr = ''CallExpr''"
| "KindName ImplicitCastExpr = ''ImplicitCastExpr''"
| "KindName AssignmentStmt = ''AssignmentStmt''"
| "KindName File = ''File''"
| "KindName FunctionLitExpr = ''FunctionLitExpr''"
| "KindName ForStmt = ''ForStmt''"
| "KindName ForInStmt = ''ForInStmt''"
| "KindName BinaryOpExpr = ''BinaryOpExpr''"
| "KindName LitExpr = ''LitExpr''"
| "KindName StructTypeRepr = ''StructTypeRepr''"
| "KindName DeclStmt = ''DeclStmt''"
| "KindName PointerTypeRepr = ''PointerTypeRepr''"
| "KindName ComparisonOpExpr = ''ComparisonOpExpr''"
| "KindName IfStmt = ''IfStmt''"
| "KindName ExpressionStmt = ''ExpressionStmt''"
| "KindName IndexExpr = ''IndexExpr''"

text \<open>
  Modelled from the spec: the node classes are declared in \<^verbatim>\<open>execution/ast/ast.h\<close>,
  which is not among the sources.  A node is a tagged node with a fixed kind; it may embed
  the literal text of an identifier or constant, and it owns its children, which form a
  tree with no parent pointers (section 3 of the spec).  A child pointer that is null in
  the program is a child that is absent from the list.
\<close>

datatype AstNode = AstNode (GetKind: Kind) (literal: string) (children: "AstNode list")

text \<open>All nodes of a tree, the root first, and the kinds that occur in it.\<close>

fun nodes :: "AstNode \<Rightarrow> AstNode list" where
  "nodes (AstNode k t cs) = AstNode k t cs # concat (map nodes cs)"

definition kinds :: "AstNode \<Rightarrow> Kind set" where
  "kinds tree = GetKind ` set (nodes tree)"


section \<open>The set of kind names\<close>

text \<open>
  \<^verbatim>\<open>std::set<std::string> kindnames_\<close> (line 78): an ordered container of unique keys.
  It is a list kept in the order of \<^verbatim>\<open>std::string\<close>'s \<^verbatim>\<open>operator<\<close> (lexicographic on
  bytes), which is also the order in which line 143 iterates over it.  \<^verbatim>\<open>insert\<close> walks
  to the key's place and adds it unless an equivalent key (neither smaller nor larger) is
  there already.
\<close>

fun std_set_insert :: "string \<Rightarrow> string list \<Rightarrow> string list" where
  "std_set_insert x [] = [x]"
| "std_set_insert x (y # ys) =
     (if x < y then x # y # ys
      else if y < x then y # std_set_insert x ys
      else y # ys)"


section \<open>ExtractKindNames\<close>

text \<open>
  The kinds \<^verbatim>\<open>EXTRACT_KINDNAME_METHOD\<close> is instantiated for, in the order of lines 47
  to 69.  \<^verbatim>\<open>FieldDecl\<close>, \<^verbatim>\<open>FunctionTypeRepr\<close> and \<^verbatim>\<open>IdentifierExpr\<close> are commented out on
  lines 43 to 45 and so have no hook in the extractor.
\<close>

definition EXTRACT_KINDNAME_METHODS :: "Kind list" where
  "EXTRACT_KINDNAME_METHODS =
     [FunctionDecl, ArrayTypeRepr, BlockStmt, StructDecl, VariableDecl, UnaryOpExpr,
      ReturnStmt, CallExpr, ImplicitCastExpr, AssignmentStmt, File, FunctionLitExpr,
      ForStmt, ForInStmt, BinaryOpExpr, LitExpr, StructTypeRepr, DeclStmt,
      PointerTypeRepr, ComparisonOpExpr, IfStmt, ExpressionStmt, IndexExpr]"

definition registered :: "Kind \<Rightarrow> bool" where
  "registered k = (k \<in> set EXTRACT_KINDNAME_METHODS)"

text \<open>
  The traversal, with \<^verbatim>\<open>kindnames_\<close> passed through it.

  \<^item> \<open>Visit\<close> is the dispatch on the node's kind: a kind with a hook in the extractor goes
    to that hook, any other kind to the base class's method.
  \<^item> \<open>EXTRACT_KINDNAME_METHOD\<close> is the macro's body (lines 23 to 26): insert
    \<^verbatim>\<open>node->KindName()\<close>, then call \<^verbatim>\<open>AstTraversalVisitor<SelfT>::Visit##ASTNODE(node)\<close>.
  \<^item> \<open>AstTraversalVisitor_Visit\<close> and \<open>VisitChildren\<close> are modelled from the spec: the
    class template \<^verbatim>\<open>AstTraversalVisitor\<close> (\<^verbatim>\<open>execution/ast/ast_traversal_visitor.h\<close>) is
    not among the sources.  Section 4.3 of the spec gives its default for a kind without
    a hook of the pass: descend into the children, each visited once, in a fixed order,
    through the same dispatch.
\<close>

fun Visit :: "AstNode \<Rightarrow> string list \<Rightarrow> string list"
  and EXTRACT_KINDNAME_METHOD :: "AstNode \<Rightarrow> string list \<Rightarrow> string list"
  and AstTraversalVisitor_Visit :: "AstNode \<Rightarrow> string list \<Rightarrow> string list"
  and VisitChildren :: "AstNode list \<Rightarrow> string list \<Rightarrow> string list"
where
  "Visit (AstNode k t cs) names =
     (if registered k then EXTRACT_KINDNAME_METHOD (AstNode k t cs) names
      else AstTraversalVisitor_Visit (AstNode k t cs) names)"
| "EXTRACT_KINDNAME_METHOD (AstNode k t cs) names =
     AstTraversalVisitor_Visit (AstNode k t cs) (std_set_insert (KindName k) names)"
| "AstTraversalVisitor_Visit (AstNode k t cs) names = VisitChildren cs names"
| "VisitChildren [] names = names"
| "VisitChildren (c # cs) names = VisitChildren cs (Visit c names)"

text \<open>
  The extractor object: the root it was constructed on (\<^verbatim>\<open>root_\<close> of the base class,
  line 39) and \<^verbatim>\<open>kindnames_\<close> (line 78), empty at construction; a name cannot end with an
  underscore here.  The record is for a root that is not null; \<open>CheckDump\<close> below says
  what the names are for a null one.
\<close>

record ExtractKindNames =
  root :: AstNode
  kindnames :: "string list"

definition ExtractKindNames_new :: "AstNode \<Rightarrow> ExtractKindNames" where
  "ExtractKindNames_new r = \<lparr>root = r, kindnames = []\<rparr>"

text \<open>
  Modelled from the spec: \<^verbatim>\<open>Run\<close> is a member of \<^verbatim>\<open>AstTraversalVisitor\<close>, not among the
  sources; by section 4.3 it performs the traversal from the root.
\<close>

definition Run :: "ExtractKindNames \<Rightarrow> ExtractKindNames" where
  "Run e = e\<lparr>kindnames := Visit (root e) (kindnames e)\<rparr>"

definition GetKindNames :: "ExtractKindNames \<Rightarrow> string list" where
  "GetKindNames e = kindnames e"


section \<open>The test harness\<close>

text \<open>
  Modelled from the spec: \<^verbatim>\<open>sema::ErrorReporter\<close> is not among the sources.  By section 3
  of the spec it is an ordered, append-only sequence of diagnostics, and "has errors" is a
  function of that sequence alone.  A diagnostic is kept as its message.
\<close>

type_synonym diagnostic = string

definition HasErrors :: "diagnostic list \<Rightarrow> bool" where
  "HasErrors error = (error \<noteq> [])"

text \<open>
  \<^verbatim>\<open>parsing::Scanner\<close>, \<^verbatim>\<open>parsing::Parser\<close>, \<^verbatim>\<open>sema::Sema\<close>, \<^verbatim>\<open>AstDump\<close> and
  \<^verbatim>\<open>AstTraversalVisitor\<close> are not among the sources; the harness is modelled over any of
  them.

  \<^item> \<open>ParserNew src\<close>: the diagnostics reported while lines 96 to 100 construct the
    reporter, the context, the scanner and the parser.
  \<^item> \<open>Parse src\<close>: the root \<^verbatim>\<open>parser.Parse()\<close> returns (section 4.2 of the spec: a root
    node, also after syntax errors) and the diagnostics it reports.
  \<^item> \<open>SemaRun root\<close>: the tree as \<^verbatim>\<open>sema.Run(root)\<close> leaves it (it annotates in place),
    the flag it returns, and the diagnostics it reports.
  \<^item> \<open>Dump root\<close>: the text of \<^verbatim>\<open>AstDump::Dump(root)\<close>, for a root that may be null.
  \<^item> \<open>NullKindNames\<close>: the names \<^verbatim>\<open>GetKindNames\<close> returns after \<^verbatim>\<open>Run\<close> on an extractor
    that was constructed on a null root.  No hook of the extractor decides this: it is
    the base class that starts the traversal.
\<close>

record frontend =
  ParserNew :: "string \<Rightarrow> diagnostic list"
  Parse :: "string \<Rightarrow> AstNode \<times> diagnostic list"
  SemaRun :: "AstNode \<Rightarrow> AstNode \<times> bool \<times> diagnostic list"
  Dump :: "AstNode option \<Rightarrow> string"
  NullKindNames :: "string list"

text \<open>The passes the harness invokes, with the root each one is handed.\<close>

datatype call =
    Call_Parse
  | Call_SemaRun AstNode
  | Call_ExtractKindNames_Run "AstNode option"
  | Call_AstDump_Dump "AstNode option"

text \<open>The non-fatal googletest expectations of the file that can fail.\<close>

datatype expectation =
    Expect_check_false
  | Expect_dump_not_empty
  | Missing_token string
  | Missing_constant string

text \<open>
  \<^verbatim>\<open>GenerateAst\<close> (lines 95 to 118) returns a pointer that is null on both error paths.
  The model returns that pointer together with the passes invoked, oldest first, and the
  expectations that failed.
\<close>

record generated =
  gen_root :: "AstNode option"
  gen_calls :: "call list"
  gen_failed :: "expectation list"

definition GenerateAst :: "frontend \<Rightarrow> string \<Rightarrow> generated" where
  "GenerateAst fe src =
     (let error0 = ParserNew fe src in
      if HasErrors error0 then \<lparr>gen_root = None, gen_calls = [], gen_failed = []\<rparr>
      else
        let (tree, parse_diagnostics) = Parse fe src;
            error1 = error0 @ parse_diagnostics;
            (tree', check, sema_diagnostics) = SemaRun fe tree;
            error2 = error1 @ sema_diagnostics
        in if HasErrors error2
           then \<lparr>gen_root = None, gen_calls = [Call_Parse, Call_SemaRun tree],
                 gen_failed = []\<rparr>
           else \<lparr>gen_root = Some tree', gen_calls = [Call_Parse, Call_SemaRun tree],
                 gen_failed = (if check then [Expect_check_false] else [])\<rparr>)"

text \<open>
  \<^verbatim>\<open>dump.find(token)\<close> (lines 144 and 147): the first position at which the text occurs,
  \<open>None\<close> for \<^verbatim>\<open>std::string::npos\<close>.
\<close>

fun string_find :: "string \<Rightarrow> string \<Rightarrow> nat option" where
  "string_find [] tok = (if tok = [] then Some 0 else None)"
| "string_find (c # cs) tok =
     (if prefix tok (c # cs) then Some 0 else map_option Suc (string_find cs tok))"

text \<open>
  What \<^verbatim>\<open>CheckDump\<close> gives: the passes invoked, oldest first, and the expectations that
  failed, in the order of the source.
\<close>

record checked =
  chk_calls :: "call list"
  chk_failed :: "expectation list"

text \<open>
  \<^verbatim>\<open>CheckDump\<close> (lines 127 to 149).  The root of line 130 goes to the extractor (line 133)
  and to the dumper (line 138) as it is: no line tests it, and no line leaves the function
  early.
\<close>

definition CheckDump :: "frontend \<Rightarrow> string \<Rightarrow> string list \<Rightarrow> checked" where
  "CheckDump fe src constants =
     (let g = GenerateAst fe src;
          r = gen_root g;
          tokens = (case r of
                      None \<Rightarrow> NullKindNames fe
                    | Some tree \<Rightarrow> GetKindNames (Run (ExtractKindNames_new tree)));
          dump = Dump fe r
      in \<lparr>chk_calls = gen_calls g @ [Call_ExtractKindNames_Run r, Call_AstDump_Dump r],
          chk_failed = gen_failed g
            @ (if dump = [] then [Expect_dump_not_empty] else [])
            @ map Missing_token (filter (\<lambda>token. string_find dump token = None) tokens)
            @ map Missing_constant
                (filter (\<lambda>constant. string_find dump constant = None) constants)\<rparr>)"


section \<open>Concrete trees and a concrete front end\<close>

text \<open>
  The parser is not among the sources, so the trees of the test programs are written out
  by hand, after section 3 of the spec: a function declaration holds a function literal,
  which holds its type representation (the parameters as field declarations, then the
  return type) and its body block.

  \<open>FunctionTest_ast\<close> is the tree of the source of \<^verbatim>\<open>FunctionTest\<close> (lines 193 to 196):
  the two functions \<^verbatim>\<open>XXXXXX\<close> and \<^verbatim>\<open>yyyyyy\<close>, each with the parameter \<^verbatim>\<open>x: int\<close>, the
  result \<^verbatim>\<open>void\<close> and an empty body.
\<close>

definition empty_function :: "string \<Rightarrow> AstNode" where
  "empty_function name =
     AstNode FunctionDecl name
       [AstNode FunctionLitExpr []
          [AstNode FunctionTypeRepr []
             [AstNode FieldDecl ''x'' [AstNode IdentifierExpr ''int'' []],
              AstNode IdentifierExpr ''void'' []],
           AstNode BlockStmt [] []]]"

definition FunctionTest_ast :: AstNode where
  "FunctionTest_ast =
     AstNode File [] [empty_function ''XXXXXX'', empty_function ''yyyyyy'']"

text \<open>
  \<open>IfTest_ast\<close> is the tree of the source of \<^verbatim>\<open>IfTest\<close> (lines 158 to 167): three nested
  \<^verbatim>\<open>if\<close> statements, the innermost with an \<^verbatim>\<open>else\<close> block.
\<close>

definition xyz_less :: "string \<Rightarrow> AstNode" where
  "xyz_less number =
     AstNode ComparisonOpExpr ''<''
       [AstNode IdentifierExpr ''xyz'' [], AstNode LitExpr number []]"

definition IfTest_ast :: AstNode where
  "IfTest_ast =
     AstNode File []
       [AstNode FunctionDecl ''f1''
          [AstNode FunctionLitExpr []
             [AstNode FunctionTypeRepr []
                [AstNode FieldDecl ''xyz'' [AstNode IdentifierExpr ''int'' []],
                 AstNode IdentifierExpr ''void'' []],
              AstNode BlockStmt []
                [AstNode IfStmt []
                   [xyz_less ''67890'',
                    AstNode BlockStmt []
                      [AstNode IfStmt []
                         [xyz_less ''12345'',
                          AstNode BlockStmt []
                            [AstNode IfStmt []
                               [xyz_less ''1'',
                                AstNode BlockStmt [] [],
                                AstNode BlockStmt [] []]]]]]]]]]"

text \<open>
  A front end to run the harness on the source \<^verbatim>\<open>fun\<close>, a function declaration that
  stops after its keyword: the parser reports one syntax error for it (section 7 of the
  spec: a missing required token) and returns an empty file; nothing else reports.  For a
  null root this front end's dump is empty and its extractor has no names.
\<close>

definition frontend_on_fun :: frontend where
  "frontend_on_fun =
     \<lparr>ParserNew = (\<lambda>src. []),
      Parse = (\<lambda>src. (AstNode File [] [],
                 if src = ''fun'' then [''expected identifier''] else [])),
      SemaRun = (\<lambda>tree. (tree, False, [])),
      Dump = (\<lambda>r. case r of None \<Rightarrow> [] | Some tree \<Rightarrow> KindName (GetKind tree)),
      NullKindNames = []\<rparr>"





section \<open>Facts about the set of kind names\<close>

lemma set_std_set_insert: "set (std_set_insert x ys) = insert x (set ys)"
  by (induction ys) auto

lemma sorted_std_set_insert:
  "sorted_wrt (<) ys \<Longrightarrow> sorted_wrt (<) (std_set_insert x ys)"
  by (induction ys) (auto simp: set_std_set_insert)

lemma kinds_AstNode: "kinds (AstNode k t cs) = insert k (\<Union>c\<in>set cs. kinds c)"
  by (auto simp: kinds_def)

lemma GetKind_in_kinds: "n \<in> set (nodes tree) \<Longrightarrow> GetKind n \<in> kinds tree"
  by (simp add: kinds_def)

text \<open>
  What a visit adds to the names it starts from: the names of the kinds with a hook that
  occur at the node or below it.
\<close>

lemma set_Visit:
  "set (Visit n names) = set names \<union> KindName ` {k \<in> kinds n. registered k}"
proof (induction n arbitrary: names)
  case (AstNode k t cs)
  have below: "set (VisitChildren ds acc) =
      set acc \<union> KindName ` {k \<in> (\<Union>c\<in>set ds. kinds c). registered k}"
    if "set ds \<subseteq> set cs" for ds acc
    using that
  proof (induction ds arbitrary: acc)
    case Nil
    then show ?case by simp
  next
    case (Cons d ds)
    then show ?case using AstNode.IH [of d] by auto
  qed
  show ?case
    using below [of cs] by (auto simp: kinds_AstNode set_std_set_insert)
qed

lemma sorted_Visit:
  "sorted_wrt (<) names \<Longrightarrow> sorted_wrt (<) (Visit n names)"
proof (induction n arbitrary: names)
  case (AstNode k t cs)
  have below: "sorted_wrt (<) (VisitChildren ds acc)"
    if "set ds \<subseteq> set cs" and "sorted_wrt (<) acc" for ds acc
    using that
  proof (induction ds arbitrary: acc)
    case Nil
    then show ?case by simp
  next
    case (Cons d ds)
    then show ?case using AstNode.IH [of d] by auto
  qed
  show ?case
    using below [of cs] AstNode.prems by (auto simp: sorted_std_set_insert)
qed

lemma GetKindNames_Run:
  "GetKindNames (Run (ExtractKindNames_new tree)) = Visit tree []"
  by (simp add: GetKindNames_def Run_def ExtractKindNames_new_def)

lemma set_GetKindNames:
  "set (GetKindNames (Run (ExtractKindNames_new tree))) =
     KindName ` {k \<in> kinds tree. registered k}"
  by (simp add: GetKindNames_Run set_Visit)

lemma distinct_GetKindNames:
  "distinct (GetKindNames (Run (ExtractKindNames_new tree)))"
proof -
  have "sorted_wrt (<) (Visit tree [])"
    by (rule sorted_Visit) simp
  then show ?thesis
    by (simp add: GetKindNames_Run strict_sorted_iff)
qed

lemma count_list_distinct:
  "distinct xs \<Longrightarrow> count_list xs x = (if x \<in> set xs then 1 else 0)"
  by (induction xs) auto

lemma registered_iff:
  "registered k = (k \<noteq> FieldDecl \<and> k \<noteq> FunctionTypeRepr \<and> k \<noteq> IdentifierExpr)"
  by (cases k) (simp_all add: registered_def EXTRACT_KINDNAME_METHODS_def)

lemma registered_not_excluded:
  assumes "registered k"
  shows "KindName k \<noteq> ''FieldDecl''"
    and "KindName k \<noteq> ''FunctionTypeRepr''"
    and "KindName k \<noteq> ''IdentifierExpr''"
  using assms by (cases k; simp add: registered_iff)+

lemma kinds_FunctionTest_ast:
  "kinds FunctionTest_ast =
     {File, FunctionDecl, FunctionLitExpr, FunctionTypeRepr, FieldDecl, IdentifierExpr,
      BlockStmt}"
  by (auto simp: kinds_def FunctionTest_ast_def empty_function_def)

lemma GenerateAst_on_fun:
  "GenerateAst frontend_on_fun ''fun'' =
     \<lparr>gen_root = None,
      gen_calls = [Call_Parse, Call_SemaRun (AstNode File [] [])],
      gen_failed = []\<rparr>"
  by (simp add: GenerateAst_def frontend_on_fun_def HasErrors_def)

lemma gen_failed_GenerateAst:
  "set (gen_failed (GenerateAst fe src)) \<subseteq> {Expect_check_false}"
  by (auto simp: GenerateAst_def Let_def case_prod_beta split: if_splits)

lemma gen_root_None_iff:
  "(gen_root (GenerateAst fe src) = None) =
     (HasErrors (ParserNew fe src) \<or> HasErrors (snd (Parse fe src))
      \<or> HasErrors (snd (snd (SemaRun fe (fst (Parse fe src))))))"
  by (auto simp: GenerateAst_def HasErrors_def Let_def case_prod_beta)


lemma Missing_token_iff:
  "(Missing_token t \<in> set (chk_failed (CheckDump fe src constants))) =
     (t \<in> set (case gen_root (GenerateAst fe src) of
                 None \<Rightarrow> NullKindNames fe
               | Some tree \<Rightarrow> GetKindNames (Run (ExtractKindNames_new tree)))
      \<and> string_find (Dump fe (gen_root (GenerateAst fe src))) t = None)"
  using gen_failed_GenerateAst [of fe src]
  by (auto simp: CheckDump_def Let_def)

lemma Expect_dump_not_empty_iff:
  "(Expect_dump_not_empty \<in> set (chk_failed (CheckDump fe src constants))) =
     (Dump fe (gen_root (GenerateAst fe src)) = [])"
  using gen_failed_GenerateAst [of fe src]
  by (auto simp: CheckDump_def Let_def)

lemma chk_calls_CheckDump:
  "chk_calls (CheckDump fe src constants) =
     gen_calls (GenerateAst fe src) @
       [Call_ExtractKindNames_Run (gen_root (GenerateAst fe src)),
        Call_AstDump_Dump (gen_root (GenerateAst fe src))]"
  by (simp add: CheckDump_def Let_def)

lemma sorted_GetKindNames:
  "sorted_wrt (<) (GetKindNames (Run (ExtractKindNames_new tree)))"
  unfolding GetKindNames_Run by (rule sorted_Visit) simp

lemma set_EXTRACT_KINDNAME_METHOD:
  "set (EXTRACT_KINDNAME_METHOD n names) =
     insert (KindName (GetKind n)) (set names)
       \<union> KindName ` {k \<in> (\<Union>c\<in>set (children n). kinds c). registered k}"
proof (cases n)
  case (AstNode k t cs)
  have "set (VisitChildren ds acc) =
      set acc \<union> KindName ` {k \<in> (\<Union>c\<in>set ds. kinds c). registered k}" for ds acc
    by (induction ds arbitrary: acc) (auto simp: set_Visit)
  with AstNode show ?thesis
    by (simp add: set_std_set_insert)
qed

lemma sorted_EXTRACT_KINDNAME_METHOD:
  assumes "sorted_wrt (<) names"
  shows "sorted_wrt (<) (EXTRACT_KINDNAME_METHOD n names)"
proof (cases n)
  case (AstNode k t cs)
  have "sorted_wrt (<) acc \<Longrightarrow> sorted_wrt (<) (VisitChildren ds acc)" for ds acc
    by (induction ds arbitrary: acc) (auto simp: sorted_Visit)
  with AstNode assms show ?thesis
    by (simp add: sorted_std_set_insert)
qed

lemma kinds_IfTest_ast:
  "kinds IfTest_ast =
     {File, FunctionDecl, FunctionLitExpr, FunctionTypeRepr, FieldDecl, IdentifierExpr,
      BlockStmt, IfStmt, ComparisonOpExpr, LitExpr}"
  by (auto simp: kinds_def IfTest_ast_def xyz_less_def)






section \<open>The claims\<close>

text \<open>
  C2.  The claim: when parsing ends with an error in the reporter, the harness stops
  before semantic analysis runs.  \<open>GenerateAst\<close> does not: its test of the reporter stands
  before the call of \<^verbatim>\<open>parser.Parse()\<close> (line 102), and after the parse it calls
  \<^verbatim>\<open>sema.Run(root)\<close> with no test in between (lines 106 to 109).  So whenever the parser
  is reached and reports an error, Sema is invoked on the tree it returned; the harness
  returns a null root only afterwards.
\<close>

theorem GenerateAst_runs_Sema_after_parse_errors:
  assumes "\<not> HasErrors (ParserNew fe src)"
    and "HasErrors (snd (Parse fe src))"
  shows "gen_calls (GenerateAst fe src) = [Call_Parse, Call_SemaRun (fst (Parse fe src))]
    \<and> gen_root (GenerateAst fe src) = None"
  using assms
  by (simp add: GenerateAst_def HasErrors_def Let_def case_prod_beta)

theorem GenerateAst_runs_Sema_after_parse_errors_witness:
  "HasErrors (snd (Parse frontend_on_fun ''fun''))
   \<and> gen_calls (GenerateAst frontend_on_fun ''fun'') =
       [Call_Parse, Call_SemaRun (AstNode File [] [])]
   \<and> gen_root (GenerateAst frontend_on_fun ''fun'') = None"
proof -
  have no_early: "\<not> HasErrors (ParserNew frontend_on_fun ''fun'')"
    by (simp add: frontend_on_fun_def HasErrors_def)
  have parse_error: "HasErrors (snd (Parse frontend_on_fun ''fun''))"
    by (simp add: frontend_on_fun_def HasErrors_def)
  have "fst (Parse frontend_on_fun ''fun'') = AstNode File [] []"
    by (simp add: frontend_on_fun_def)
  with GenerateAst_runs_Sema_after_parse_errors [OF no_early parse_error] parse_error
  show ?thesis by simp
qed




text \<open>
  C7, as the claim states it, fails: on the source \<^verbatim>\<open>fun\<close> the reporter holds an error
  after parsing, \<open>GenerateAst\<close> returns a null root, and \<open>CheckDump\<close> hands that null root
  to the kind extraction and to the dumper.
\<close>

theorem CheckDump_null_root_counterexample:
  "gen_root (GenerateAst frontend_on_fun ''fun'') = None
   \<and> chk_calls (CheckDump frontend_on_fun ''fun'' []) =
       [Call_Parse, Call_SemaRun (AstNode File [] []),
        Call_ExtractKindNames_Run None, Call_AstDump_Dump None]"
  by (simp add: CheckDump_def GenerateAst_on_fun Let_def)

text \<open>
  C7, amended.  The harness has no defensive check of the root.  \<open>GenerateAst\<close> returns a
  null root when the reporter holds an error at one of its two tests (and, the parser
  returning a root, only then).  \<open>CheckDump\<close> invokes the kind extraction and then the
  dumper on the root \<open>GenerateAst\<close> returned, null or not, and goes on to its
  expectations with what the two gave: the dump it tests is the dumper's text for that
  root, and for a null root the tokens it looks for are the names the extractor has for
  a null root.
\<close>

theorem CheckDump_root_unchecked:
  "(gen_root (GenerateAst fe src) = None) =
     (HasErrors (ParserNew fe src) \<or> HasErrors (snd (Parse fe src))
      \<or> HasErrors (snd (snd (SemaRun fe (fst (Parse fe src))))))
   \<and> chk_calls (CheckDump fe src constants) =
       gen_calls (GenerateAst fe src) @
         [Call_ExtractKindNames_Run (gen_root (GenerateAst fe src)),
          Call_AstDump_Dump (gen_root (GenerateAst fe src))]
   \<and> (Expect_dump_not_empty \<in> set (chk_failed (CheckDump fe src constants))) =
       (Dump fe (gen_root (GenerateAst fe src)) = [])
   \<and> (gen_root (GenerateAst fe src) = None \<longrightarrow>
        (\<forall>token. (Missing_token token \<in> set (chk_failed (CheckDump fe src constants))) =
           (token \<in> set (NullKindNames fe) \<and> string_find (Dump fe None) token = None)))"
proof -
  have tokens: "gen_root (GenerateAst fe src) = None \<longrightarrow>
      (\<forall>token. (Missing_token token \<in> set (chk_failed (CheckDump fe src constants))) =
         (token \<in> set (NullKindNames fe) \<and> string_find (Dump fe None) token = None))"
    by (simp add: Missing_token_iff)
  from gen_root_None_iff [of fe src] chk_calls_CheckDump [of fe src constants]
    Expect_dump_not_empty_iff [of fe src constants] tokens
  show ?thesis by blast
qed

theorem CheckDump_root_unchecked_witness:
  "HasErrors (snd (Parse frontend_on_fun ''fun''))
   \<and> gen_root (GenerateAst frontend_on_fun ''fun'') = None
   \<and> chk_calls (CheckDump frontend_on_fun ''fun'' [''fun'']) =
       [Call_Parse, Call_SemaRun (AstNode File [] []),
        Call_ExtractKindNames_Run None, Call_AstDump_Dump None]
   \<and> Expect_dump_not_empty \<in> set (chk_failed (CheckDump frontend_on_fun ''fun'' [''fun'']))"
proof -
  have parse_error: "HasErrors (snd (Parse frontend_on_fun ''fun''))"
    by (simp add: frontend_on_fun_def HasErrors_def)
  note harness = CheckDump_root_unchecked [of frontend_on_fun "''fun''" "[''fun'']"]
  from harness parse_error have null: "gen_root (GenerateAst frontend_on_fun ''fun'') = None"
    by blast
  from harness null
  have handed: "chk_calls (CheckDump frontend_on_fun ''fun'' [''fun'']) =
      gen_calls (GenerateAst frontend_on_fun ''fun'') @
        [Call_ExtractKindNames_Run None, Call_AstDump_Dump None]"
    by simp
  have "Dump frontend_on_fun None = []"
    by (simp add: frontend_on_fun_def)
  with harness null
  have "Expect_dump_not_empty \<in> set (chk_failed (CheckDump frontend_on_fun ''fun'' [''fun'']))"
    by simp
  with parse_error null handed show ?thesis
    by (simp add: GenerateAst_on_fun)
qed

text \<open>
  C8.  \<^verbatim>\<open>FieldDecl\<close>, \<^verbatim>\<open>FunctionTypeRepr\<close> and \<^verbatim>\<open>IdentifierExpr\<close> have no hook in the
  extractor (their registrations are commented out), and for every tree the kind set the
  extractor returns holds none of the three names, also when the tree has nodes of these
  kinds.
\<close>

theorem excluded_kinds_never_extracted:
  "\<not> registered FieldDecl \<and> \<not> registered FunctionTypeRepr \<and> \<not> registered IdentifierExpr
   \<and> ''FieldDecl'' \<notin> set (GetKindNames (Run (ExtractKindNames_new tree)))
   \<and> ''FunctionTypeRepr'' \<notin> set (GetKindNames (Run (ExtractKindNames_new tree)))
   \<and> ''IdentifierExpr'' \<notin> set (GetKindNames (Run (ExtractKindNames_new tree)))"
proof -
  have no_hook: "\<not> registered FieldDecl \<and> \<not> registered FunctionTypeRepr
      \<and> \<not> registered IdentifierExpr"
    by (simp add: registered_iff)
  have "''FieldDecl'' \<notin> KindName ` {k \<in> kinds tree. registered k}"
    and "''FunctionTypeRepr'' \<notin> KindName ` {k \<in> kinds tree. registered k}"
    and "''IdentifierExpr'' \<notin> KindName ` {k \<in> kinds tree. registered k}"
    using registered_not_excluded by fastforce+
  with no_hook show ?thesis
    by (simp add: set_GetKindNames)
qed

theorem excluded_kinds_never_extracted_witness:
  "{FieldDecl, FunctionTypeRepr, IdentifierExpr} \<subseteq> kinds FunctionTest_ast
   \<and> ''FieldDecl'' \<notin> set (GetKindNames (Run (ExtractKindNames_new FunctionTest_ast)))
   \<and> ''FunctionTypeRepr'' \<notin> set (GetKindNames (Run (ExtractKindNames_new FunctionTest_ast)))
   \<and> ''IdentifierExpr'' \<notin> set (GetKindNames (Run (ExtractKindNames_new FunctionTest_ast)))"
proof -
  have "{FieldDecl, FunctionTypeRepr, IdentifierExpr} \<subseteq> kinds FunctionTest_ast"
    by (simp add: kinds_FunctionTest_ast)
  with excluded_kinds_never_extracted [of FunctionTest_ast] show ?thesis by blast
qed

text \<open>
  C10.  The collection \<open>GetKindNames\<close> returns holds no kind name twice, however many
  nodes of a kind the tree has: it is strictly ascending, and its elements are exactly
  the names of the kinds that have a hook and occur in the tree, no other name and none
  of these missing.  Every hook goes on into the children of its node after it has
  recorded the name: from any names it starts with, a hook gives exactly these names,
  the name of its node's kind, and the names of the hooked kinds that occur below the
  node; it keeps the names in ascending order; and so every node of the tree whose kind
  has a hook, at any depth, has its kind's name in the result.
\<close>

theorem kind_names_deduplicated:
  "distinct (GetKindNames (Run (ExtractKindNames_new tree)))
   \<and> (\<forall>name. count_list (GetKindNames (Run (ExtractKindNames_new tree))) name \<le> 1)
   \<and> (\<forall>n \<in> set (nodes tree). registered (GetKind n) \<longrightarrow>
         KindName (GetKind n) \<in> set (GetKindNames (Run (ExtractKindNames_new tree))))
   \<and> (\<forall>k t cs names. EXTRACT_KINDNAME_METHOD (AstNode k t cs) names =
         VisitChildren cs (std_set_insert (KindName k) names))
   \<and> sorted_wrt (<) (GetKindNames (Run (ExtractKindNames_new tree)))
   \<and> set (GetKindNames (Run (ExtractKindNames_new tree))) =
       KindName ` {k \<in> kinds tree. registered k}
   \<and> (\<forall>n names. set (EXTRACT_KINDNAME_METHOD n names) =
         insert (KindName (GetKind n)) (set names)
           \<union> KindName ` {k \<in> (\<Union>c\<in>set (children n). kinds c). registered k})
   \<and> (\<forall>n names. sorted_wrt (<) names \<longrightarrow> sorted_wrt (<) (EXTRACT_KINDNAME_METHOD n names))"
proof -
  let ?names = "GetKindNames (Run (ExtractKindNames_new tree))"
  have once: "distinct ?names"
    by (rule distinct_GetKindNames)
  then have at_most_once: "\<forall>name. count_list ?names name \<le> 1"
    by (simp add: count_list_distinct)
  have reached: "\<forall>n \<in> set (nodes tree). registered (GetKind n) \<longrightarrow>
      KindName (GetKind n) \<in> set ?names"
    unfolding set_GetKindNames using GetKind_in_kinds by blast
  have descends: "\<forall>k t cs names. EXTRACT_KINDNAME_METHOD (AstNode k t cs) names =
      VisitChildren cs (std_set_insert (KindName k) names)"
    by simp
  have ascending: "sorted_wrt (<) ?names"
    by (rule sorted_GetKindNames)
  have exact: "set ?names = KindName ` {k \<in> kinds tree. registered k}"
    by (rule set_GetKindNames)
  have hook_set: "\<forall>n names. set (EXTRACT_KINDNAME_METHOD n names) =
      insert (KindName (GetKind n)) (set names)
        \<union> KindName ` {k \<in> (\<Union>c\<in>set (children n). kinds c). registered k}"
    by (simp add: set_EXTRACT_KINDNAME_METHOD)
  have hook_sorted: "\<forall>n names. sorted_wrt (<) names \<longrightarrow>
      sorted_wrt (<) (EXTRACT_KINDNAME_METHOD n names)"
    by (simp add: sorted_EXTRACT_KINDNAME_METHOD)
  from once at_most_once reached descends ascending exact hook_set hook_sorted
  show ?thesis by - (intro conjI, assumption+)
qed

theorem kind_names_deduplicated_witness:
  "length (filter (\<lambda>n. GetKind n = IfStmt) (nodes IfTest_ast)) = 3
   \<and> count_list (GetKindNames (Run (ExtractKindNames_new IfTest_ast))) ''IfStmt'' = 1
   \<and> AstNode LitExpr ''1'' [] \<in> set (nodes IfTest_ast)
   \<and> ''LitExpr'' \<in> set (GetKindNames (Run (ExtractKindNames_new IfTest_ast)))
   \<and> set (GetKindNames (Run (ExtractKindNames_new IfTest_ast))) =
       {''BlockStmt'', ''ComparisonOpExpr'', ''File'', ''FunctionDecl'', ''FunctionLitExpr'',
        ''IfStmt'', ''LitExpr''}
   \<and> GetKindNames (Run (ExtractKindNames_new IfTest_ast)) =
       [''BlockStmt'', ''ComparisonOpExpr'', ''File'', ''FunctionDecl'', ''FunctionLitExpr'',
        ''IfStmt'', ''LitExpr'']
   \<and> set (EXTRACT_KINDNAME_METHOD (xyz_less ''1'') [''IfStmt'']) =
       {''ComparisonOpExpr'', ''IfStmt'', ''LitExpr''}"
proof -
  let ?names = "GetKindNames (Run (ExtractKindNames_new IfTest_ast))"
  note dedup = kind_names_deduplicated [of IfTest_ast]
  note once = dedup [THEN conjunct1]
  note reached = dedup [THEN conjunct2, THEN conjunct2, THEN conjunct1, rule_format]
  note rest = dedup [THEN conjunct2, THEN conjunct2, THEN conjunct2, THEN conjunct2,
      THEN conjunct2]
  note exact_set = rest [THEN conjunct1]
  note hook_set = rest [THEN conjunct2, THEN conjunct1, rule_format]
  have three: "length (filter (\<lambda>n. GetKind n = IfStmt) (nodes IfTest_ast)) = 3"
    by (simp add: IfTest_ast_def xyz_less_def)
  have outer: "AstNode IfStmt []
      [xyz_less ''1'', AstNode BlockStmt [] [], AstNode BlockStmt [] []]
        \<in> set (nodes IfTest_ast)"
    by (simp add: IfTest_ast_def xyz_less_def)
  have inner: "AstNode LitExpr ''1'' [] \<in> set (nodes IfTest_ast)"
    by (simp add: IfTest_ast_def xyz_less_def)
  have hooked: "registered IfStmt" "registered LitExpr"
    by (simp_all add: registered_iff)
  from reached [OF outer] hooked have "''IfStmt'' \<in> set ?names"
    by simp
  with once have one: "count_list ?names ''IfStmt'' = 1"
    by (simp add: count_list_distinct)
  from reached [OF inner] hooked have lit: "''LitExpr'' \<in> set ?names"
    by simp
  have "{k \<in> kinds IfTest_ast. registered k} =
      {File, FunctionDecl, FunctionLitExpr, BlockStmt, IfStmt, ComparisonOpExpr, LitExpr}"
    by (auto simp: kinds_IfTest_ast registered_iff)
  then have "KindName ` {k \<in> kinds IfTest_ast. registered k} =
      {''BlockStmt'', ''ComparisonOpExpr'', ''File'', ''FunctionDecl'', ''FunctionLitExpr'',
       ''IfStmt'', ''LitExpr''}"
    by auto
  with exact_set have exact: "set ?names =
      {''BlockStmt'', ''ComparisonOpExpr'', ''File'', ''FunctionDecl'', ''FunctionLitExpr'',
       ''IfStmt'', ''LitExpr''}"
    by simp
  have listed: "?names =
      [''BlockStmt'', ''ComparisonOpExpr'', ''File'', ''FunctionDecl'', ''FunctionLitExpr'',
       ''IfStmt'', ''LitExpr'']"
    by (simp add: GetKindNames_Run IfTest_ast_def xyz_less_def registered_def
        EXTRACT_KINDNAME_METHODS_def)
  have below: "(\<Union>c\<in>set (children (xyz_less ''1'')). kinds c) = {IdentifierExpr, LitExpr}"
    by (auto simp: xyz_less_def kinds_def)
  have hooked_below: "{k \<in> {IdentifierExpr, LitExpr}. registered k} = {LitExpr}"
    by (auto simp: registered_iff)
  have "set (EXTRACT_KINDNAME_METHOD (xyz_less ''1'') [''IfStmt'']) =
      insert (KindName (GetKind (xyz_less ''1''))) (set [''IfStmt''])
        \<union> KindName ` {k \<in> (\<Union>c\<in>set (children (xyz_less ''1'')). kinds c). registered k}"
    by (rule hook_set)
  also have "\<dots> = {''ComparisonOpExpr'', ''IfStmt'', ''LitExpr''}"
    unfolding below hooked_below by (auto simp: xyz_less_def)
  finally have hook: "set (EXTRACT_KINDNAME_METHOD (xyz_less ''1'') [''IfStmt'']) =
      {''ComparisonOpExpr'', ''IfStmt'', ''LitExpr''}" .
  from three one inner lit exact listed hook show ?thesis
    by - (intro conjI, assumption+)
qed

end
